theory Spec2Isabelle
  imports Complex_Main
begin

section \<open>Driver for the Keysight 81160A: a shallow embedding\<close>

text \<open>
  The source is \<^verbatim>\<open>pymeasure/instruments/keysight/keysight81160A.py\<close>.
  A finite Python float (and a finite element of a float64 array) is represented by the
  real number it denotes; a float64 that is infinite or NaN is a value of its own
  (\<open>PosInf\<close>, \<open>NegInf\<close>, \<open>NaN\<close>). The arguments of the operations are such reals.
  Every float addition, subtraction, multiplication and division of the source is the
  exact operation followed by the rounding of IEEE 754 binary64 (\<open>rnd64\<close>, \<open>fl64\<close>):
  to the nearest float, ties to even, with overflow to an infinity. Comparisons are exact.
  The reals have one zero, so the sign of a float zero is not represented.
\<close>

subsection \<open>Python numerics\<close>

text \<open>Python's \<^verbatim>\<open>round(x)\<close> and numpy's \<^verbatim>\<open>np.round\<close>: nearest integer, ties to even.\<close>

definition round_half_even :: "real \<Rightarrow> int" where
  "round_half_even x =
     (let f = \<lfloor>x\<rfloor>; d = x - of_int f
      in if d < 1 / 2 then f else if 1 / 2 < d then f + 1 else if even f then f else f + 1)"

text \<open>Python's \<^verbatim>\<open>int(x)\<close> on a float: truncation toward zero.\<close>

definition py_int :: "real \<Rightarrow> int" where
  "py_int x = (if 0 \<le> x then \<lfloor>x\<rfloor> else \<lceil>x\<rceil>)"

subsection \<open>Float arithmetic\<close>

text \<open>A float64 value: finite, or one of inf, -inf, NaN.\<close>

datatype npfloat = Finite real | PosInf | NegInf | NaN

text \<open>
  The binary exponent of a positive real \<open>x\<close>, that is the \<open>e\<close> with
  \<open>2 ^ e \<le> x < 2 ^ (e + 1)\<close>, found by halving or doubling at most \<open>fuel\<close> times.
\<close>

fun binade :: "nat \<Rightarrow> real \<Rightarrow> int" where
  "binade fuel x =
     (if fuel = 0 then 0
      else if 2 \<le> x then binade (fuel - 1) (x / 2) + 1
      else if x < 1 then binade (fuel - 1) (x * 2) - 1
      else 0)"

declare binade.simps [simp del]

definition pow2 :: "int \<Rightarrow> real" where
  "pow2 k = (if 0 \<le> k then 2 ^ nat k else 1 / 2 ^ nat (- k))"

text \<open>
  Rounding to binary64: 53 significant bits, so the unit in the last place of a real in
  the binade \<open>e\<close> is \<open>2 ^ (e - 52)\<close>; below the least normal exponent -1022 the unit
  stays \<open>2 ^ -1074\<close> (subnormal floats). The fuel 1100 reaches every exponent from
  -1074 to 1024. \<open>fl64\<close> adds the overflow: a rounded magnitude of \<open>2 ^ 1024\<close> or more is an
  infinity.
\<close>

definition rnd64 :: "real \<Rightarrow> real" where
  "rnd64 x =
     (if x = 0 then 0
      else (let e = max (- 1022) (binade 1100 \<bar>x\<bar>); ulp = pow2 (e - 52)
            in of_int (round_half_even (x / ulp)) * ulp))"

definition fl64 :: "real \<Rightarrow> npfloat" where
  "fl64 x =
     (let r = rnd64 x
      in if pow2 1024 \<le> r then PosInf else if r \<le> - pow2 1024 then NegInf else Finite r)"

text \<open>\<^verbatim>\<open>y > c\<close> for a float \<open>y\<close> and a finite \<open>c\<close>: false for NaN.\<close>

definition np_gt :: "npfloat \<Rightarrow> real \<Rightarrow> bool" where
  "np_gt y c = (case y of Finite x \<Rightarrow> c < x | PosInf \<Rightarrow> True | _ \<Rightarrow> False)"

text \<open>The product of two floats: an infinity times zero is NaN.\<close>

definition np_neg :: "npfloat \<Rightarrow> npfloat" where
  "np_neg y = (case y of Finite x \<Rightarrow> Finite (- x) | PosInf \<Rightarrow> NegInf | NegInf \<Rightarrow> PosInf | NaN \<Rightarrow> NaN)"

definition inf_times :: "npfloat \<Rightarrow> real \<Rightarrow> npfloat" where
  "inf_times i c = (if c = 0 then NaN else if 0 < c then i else np_neg i)"

definition fmul :: "npfloat \<Rightarrow> npfloat \<Rightarrow> npfloat" where
  "fmul a b =
     (case a of
        Finite x \<Rightarrow>
          (case b of Finite y \<Rightarrow> fl64 (x * y) | NaN \<Rightarrow> NaN | _ \<Rightarrow> inf_times b x)
      | NaN \<Rightarrow> NaN
      | _ \<Rightarrow>
          (case b of Finite y \<Rightarrow> inf_times a y | NaN \<Rightarrow> NaN | PosInf \<Rightarrow> a | NegInf \<Rightarrow> np_neg a))"

subsection \<open>Python strings\<close>

text \<open>Python's \<^verbatim>\<open>str\<close> of an integer: decimal digits, a minus sign when negative.\<close>

fun str_nat :: "nat \<Rightarrow> string" where
  "str_nat n =
     (if n < 10 then [''0123456789'' ! n]
      else str_nat (n div 10) @ [''0123456789'' ! (n mod 10)])"

declare str_nat.simps [simp del]

definition str_int :: "int \<Rightarrow> string" where
  "str_int i = (if i < 0 then CHR ''-'' # str_nat (nat (- i)) else str_nat (nat i))"

text \<open>Python's \<^verbatim>\<open>sep.join(parts)\<close>.\<close>

fun join :: "string \<Rightarrow> string list \<Rightarrow> string" where
  "join sep [] = []"
| "join sep [s] = s"
| "join sep (s # t # ts) = s @ sep @ join sep (t # ts)"

text \<open>
  What Python prints for a float with at most one decimal digit and a magnitude below
  \<^verbatim>\<open>1e16\<close> (\<^verbatim>\<open>str(3.0) = "3.0"\<close>, \<^verbatim>\<open>str(331e6) = "331000000.0"\<close>). It stands for
  the f-string formatting in the worked examples.
\<close>

definition str_tenths :: "real \<Rightarrow> string" where
  "str_tenths x =
     (let n = nat (round_half_even (\<bar>x\<bar> * 10))
      in (if x < 0 then ''-'' else []) @ str_nat (n div 10) @ ''.'' @ str_nat (n mod 10))"

subsection \<open>Module constants\<close>


definition FREQUENCY_RANGE :: "real \<times> real" where
  "FREQUENCY_RANGE = (1 / 10 ^ 6, 330000000)"

definition TRIGGER_COUNT :: "real \<times> real" where
  "TRIGGER_COUNT = (1, 2147483647)"

definition MAX_VOLTAGE :: real where
  "MAX_VOLTAGE = 5"

definition SIN_AMPL_BORDER :: real where
  "SIN_AMPL_BORDER = 3"

definition MAX_DAC_VALUE :: int where
  "MAX_DAC_VALUE = 8191"

text \<open>
  What an f-string prints for the three float constants that the error messages
  interpolate: \<^verbatim>\<open>MAX_VOLTAGE = 5.0\<close>, \<^verbatim>\<open>FREQUENCY_RANGE[-1] = 330e6\<close> and
  \<^verbatim>\<open>SIN_AMPL_BORDER = 3.0\<close>.
\<close>

definition MAX_VOLTAGE_str :: string where
  "MAX_VOLTAGE_str = ''5.0''"

definition FREQUENCY_RANGE_last_str :: string where
  "FREQUENCY_RANGE_last_str = ''330000000.0''"

definition SIN_AMPL_BORDER_str :: string where
  "SIN_AMPL_BORDER_str = ''3.0''"

subsection \<open>Errors, outcomes and the transport\<close>

text \<open>
  \<open>ValueError\<close> carries the message of a \<^verbatim>\<open>raise ValueError(...)\<close>.
  \<open>RangeError\<close> is the \<^verbatim>\<open>ValueError\<close> of the range validator, which names the offending
  value and the range. \<open>ZeroDivisionError\<close> and \<open>OverflowError\<close> are Python's.
\<close>

datatype error =
    ValueError string
  | RangeError real "real \<times> real"
  | ZeroDivisionError
  | OverflowError

text \<open>Python's \<^verbatim>\<open>int(y)\<close> on a float: an infinity and NaN cannot be converted.\<close>

definition py_int_np :: "npfloat \<Rightarrow> error + int" where
  "py_int_np y =
     (case y of
        Finite x \<Rightarrow> Inr (py_int x)
      | NaN \<Rightarrow> Inl (ValueError ''cannot convert float NaN to integer'')
      | _ \<Rightarrow> Inl OverflowError)"

datatype outcome = Returned | Raised error

text \<open>What reached the transport: a command line, or a command prefix with a block of integers.\<close>

datatype message = Text string | BinaryBlock string "int list"

text \<open>
  \<^verbatim>\<open>self.write(command)\<close>: the command is appended to what the transport has received
  (\<open>write\<close> is a keyword of Isabelle, hence the longer name).
\<close>

definition transport_write :: "string \<Rightarrow> message list \<Rightarrow> message list" where
  "transport_write command t = t @ [Text command]"

text \<open>
  Modelled from the spec: \<^verbatim>\<open>write_binary_values\<close> of the instrument base class is not in
  the source file. The block of values is sent after the command prefix as one binary
  block; the base class encodes each value as a 16-bit big-endian signed integer
  (\<^verbatim>\<open>datatype="h"\<close>). The message records the values as they are handed over.
\<close>

definition write_binary_values :: "string \<Rightarrow> int list \<Rightarrow> message list \<Rightarrow> message list" where
  "write_binary_values command vals t = t @ [BinaryBlock command vals]"

subsection \<open>The channel\<close>

text \<open>
  \<open>ch_id\<close> is \<^verbatim>\<open>self.id\<close>, \<open>waveform_volatile_attr\<close> is \<^verbatim>\<open>self._waveform_volatile\<close>
  (absent until the first upload), \<open>written\<close> is what the transport has received.
\<close>

record channel =
  ch_id :: nat
  waveform_volatile_attr :: "real list option"
  written :: "message list"

text \<open>\<^verbatim>\<open>ch_1 = Instrument.ChannelCreator(Keysight81160AChannel, 1)\<close>, before any command.\<close>

definition ch_1 :: channel where
  "ch_1 = \<lparr>ch_id = 1, waveform_volatile_attr = None, written = []\<rparr>"

subsubsection \<open>Waveform upload\<close>

text \<open>\<^verbatim>\<open>data.max()\<close>: numpy raises \<^verbatim>\<open>ValueError\<close> on an empty array.\<close>

definition data_max :: "real list \<Rightarrow> error + real" where
  "data_max data =
     (case data of
        [] \<Rightarrow> Inl (ValueError ''zero-size array to reduction operation maximum which has no identity'')
      | x # xs \<Rightarrow> Inr (fold max xs x))"

text \<open>
  \<^verbatim>\<open>x / m\<close> on float64 arrays: a division by zero raises nothing (numpy warns) and gives
  inf, -inf or NaN. (For a maximum of \<^verbatim>\<open>-0.0\<close> the two infinities change places.)
\<close>

definition np_divide :: "real \<Rightarrow> real \<Rightarrow> npfloat" where
  "np_divide x m =
     (if m = 0 then (if 0 < x then PosInf else if x < 0 then NegInf else NaN)
      else fl64 (x / m))"

definition np_multiply :: "npfloat \<Rightarrow> real \<Rightarrow> npfloat" where
  "np_multiply y c = fmul y (Finite c)"

definition np_round :: "npfloat \<Rightarrow> npfloat" where
  "np_round y = (case y of Finite x \<Rightarrow> Finite (of_int (round_half_even x)) | _ \<Rightarrow> y)"

text \<open>
  \<^verbatim>\<open>.astype(int)\<close>: truncation to a 64-bit integer. The integer that numpy stores for
  inf, -inf, NaN and for a finite value outside the 64-bit range depends on the platform
  (the least 64-bit integer for all of them on x86-64; 0 for NaN and the nearest 64-bit
  integer otherwise on AArch64); it is the parameter \<open>nf\<close>.
\<close>

definition astype_int :: "(npfloat \<Rightarrow> int) \<Rightarrow> npfloat \<Rightarrow> int" where
  "astype_int nf y =
     (case y of
        Finite x \<Rightarrow>
          (if - 9223372036854775808 \<le> x \<and> x < 9223372036854775808 then py_int x else nf y)
      | _ \<Rightarrow> nf y)"



definition preprocess_waveform :: "(npfloat \<Rightarrow> int) \<Rightarrow> real list \<Rightarrow> error + int list" where
  "preprocess_waveform nf data =
     (case data_max data of
        Inl e \<Rightarrow> Inl e
      | Inr m \<Rightarrow>
          (let data_normed = map (\<lambda>x. np_divide x m) data;
               data_int = map (\<lambda>y. astype_int nf (np_round (np_multiply y (of_int MAX_DAC_VALUE))))
                            data_normed
           in Inr data_int))"

text \<open>The setter of \<^verbatim>\<open>waveform_volatile\<close>: the float array is stored first.\<close>

definition waveform_volatile_set :: "(npfloat \<Rightarrow> int) \<Rightarrow> channel \<Rightarrow> real list \<Rightarrow> outcome \<times> channel" where
  "waveform_volatile_set nf ch waveform =
     (let ch1 = ch\<lparr>waveform_volatile_attr := Some waveform\<rparr>
      in case preprocess_waveform nf waveform of
           Inl e \<Rightarrow> (Raised e, ch1)
         | Inr waveform_int \<Rightarrow>
             (Returned,
              ch1\<lparr>written := write_binary_values ('':DATA'' @ str_nat (ch_id ch1) @ '':DAC VOLATILE,'')
                                 waveform_int (written ch1)\<rparr>))"

subsubsection \<open>Apply operations\<close>

text \<open>
  The checks return the error they raise, if any. In the apply operations \<open>py_str\<close> is
  what an f-string prints for a number passed by the caller.
\<close>

definition check_voltages :: "real \<Rightarrow> real \<Rightarrow> error option" where
  "check_voltages amplitude offset =
     (if np_gt (fl64 (\<bar>amplitude\<bar> + \<bar>offset\<bar>)) MAX_VOLTAGE
      then Some (ValueError (''Amplitude + offset exceed maximal voltage of '' @ MAX_VOLTAGE_str @ '' V.''))
      else None)"

definition check_sin_params :: "real \<Rightarrow> real \<Rightarrow> error option" where
  "check_sin_params frequency amplitude =
     (if frequency > snd FREQUENCY_RANGE \<and> amplitude > SIN_AMPL_BORDER
      then Some (ValueError (''Frequency of higher than '' @ FREQUENCY_RANGE_last_str
                   @ '' Hz is only supported for sin with'' @ '' amplitude below ''
                   @ SIN_AMPL_BORDER_str @ '' V.''))
      else None)"

definition apply_dc :: "(real \<Rightarrow> string) \<Rightarrow> channel \<Rightarrow> real \<Rightarrow> outcome \<times> channel" where
  "apply_dc py_str ch voltage =
     (Returned, ch\<lparr>written := transport_write ('':APPL'' @ str_nat (ch_id ch) @ '':DC DEF, DEF, '' @ py_str voltage)
                                (written ch)\<rparr>)"

definition apply_noise :: "(real \<Rightarrow> string) \<Rightarrow> channel \<Rightarrow> real \<Rightarrow> real \<Rightarrow> outcome \<times> channel" where
  "apply_noise py_str ch amplitude offset =
     (case check_voltages amplitude offset of
        Some e \<Rightarrow> (Raised e, ch)
      | None \<Rightarrow>
          (Returned, ch\<lparr>written := transport_write ('':APPL'' @ str_nat (ch_id ch) @ '':NOIS DEF, ''
                                      @ py_str amplitude @ '', '' @ py_str offset) (written ch)\<rparr>))"

definition apply_pulse :: "(real \<Rightarrow> string) \<Rightarrow> channel \<Rightarrow> real \<Rightarrow> real \<Rightarrow> real \<Rightarrow> outcome \<times> channel" where
  "apply_pulse py_str ch frequency amplitude offset =
     (case check_voltages amplitude offset of
        Some e \<Rightarrow> (Raised e, ch)
      | None \<Rightarrow>
          (Returned, ch\<lparr>written := transport_write ('':APPL'' @ str_nat (ch_id ch) @ '':PULS '' @ py_str frequency
                                      @ '', '' @ py_str amplitude @ '', '' @ py_str offset) (written ch)\<rparr>))"

definition apply_sin :: "(real \<Rightarrow> string) \<Rightarrow> channel \<Rightarrow> real \<Rightarrow> real \<Rightarrow> real \<Rightarrow> outcome \<times> channel" where
  "apply_sin py_str ch frequency amplitude offset =
     (case check_voltages amplitude offset of
        Some e \<Rightarrow> (Raised e, ch)
      | None \<Rightarrow>
          (case check_sin_params frequency amplitude of
             Some e \<Rightarrow> (Raised e, ch)
           | None \<Rightarrow>
               (Returned, ch\<lparr>written := transport_write ('':APPL'' @ str_nat (ch_id ch) @ '':SIN '' @ py_str frequency
                                           @ '', '' @ py_str amplitude @ '', '' @ py_str offset)
                                          (written ch)\<rparr>)))"

definition apply_square :: "(real \<Rightarrow> string) \<Rightarrow> channel \<Rightarrow> real \<Rightarrow> real \<Rightarrow> real \<Rightarrow> outcome \<times> channel" where
  "apply_square py_str ch frequency amplitude offset =
     (case check_voltages amplitude offset of
        Some e \<Rightarrow> (Raised e, ch)
      | None \<Rightarrow>
          (Returned, ch\<lparr>written := transport_write ('':APPL'' @ str_nat (ch_id ch) @ '':SQU '' @ py_str frequency
                                      @ '', '' @ py_str amplitude @ '', '' @ py_str offset) (written ch)\<rparr>))"

definition apply_user_waveform :: "(real \<Rightarrow> string) \<Rightarrow> channel \<Rightarrow> real \<Rightarrow> real \<Rightarrow> real \<Rightarrow> outcome \<times> channel" where
  "apply_user_waveform py_str ch frequency amplitude offset =
     (case check_voltages amplitude offset of
        Some e \<Rightarrow> (Raised e, ch)
      | None \<Rightarrow>
          (Returned, ch\<lparr>written := transport_write ('':APPL'' @ str_nat (ch_id ch) @ '':USER '' @ py_str frequency
                                      @ '', '' @ py_str amplitude @ '', '' @ py_str offset) (written ch)\<rparr>))"

subsubsection \<open>Settings\<close>

text \<open>
  Modelled from the spec: the range validator \<^verbatim>\<open>strict_range\<close> and the setter that
  \<^verbatim>\<open>Instrument.control\<close> builds from a declaration are not in the source file. A
  range-typed setting fails, before anything is transmitted, when the value is outside
  \<open>[min, max]\<close> (both bounds included); otherwise the set command is formatted with the
  channel and the value and is written, and no reply is read.
\<close>

definition strict_range :: "real \<Rightarrow> real \<times> real \<Rightarrow> error + real" where
  "strict_range v vals = (if fst vals \<le> v \<and> v \<le> snd vals then Inr v else Inl (RangeError v vals))"

definition control_set :: "(real \<Rightarrow> string) \<Rightarrow> real \<times> real \<Rightarrow> real \<Rightarrow> message list \<Rightarrow> outcome \<times> message list" where
  "control_set set_command vals v t =
     (case strict_range v vals of
        Inl e \<Rightarrow> (Raised e, t)
      | Inr v' \<Rightarrow> (Returned, transport_write (set_command v') t))"




definition burst_state_set_command :: "nat \<Rightarrow> string \<Rightarrow> string" where
  "burst_state_set_command ch s = '':BURS'' @ str_nat ch @ '':STAT '' @ s"

definition trigger_count_set_command :: "nat \<Rightarrow> real \<Rightarrow> string" where
  "trigger_count_set_command ch v = '':TRIG'' @ str_nat ch @ '':COUN '' @ str_int (py_int v)"



definition trigger_count_set :: "channel \<Rightarrow> real \<Rightarrow> outcome \<times> channel" where
  "trigger_count_set ch v =
     (case control_set (trigger_count_set_command (ch_id ch)) TRIGGER_COUNT v (written ch) of
        (r, t) \<Rightarrow> (r, ch\<lparr>written := t\<rparr>))"

subsection \<open>Utility functions\<close>

definition array_to_string :: "real list \<Rightarrow> string" where
  "array_to_string array = join '','' (map (\<lambda>x. str_int (round_half_even x)) array)"


text \<open>
  \<^verbatim>\<open>np.linspace(start, stop, num)\<close>: \<open>num\<close> evenly spaced samples from \<open>start\<close> to
  \<open>stop\<close>, both included; a negative \<open>num\<close> raises \<^verbatim>\<open>ValueError\<close>. As numpy computes
  it: with \<open>divisor = num - 1\<close> and \<open>delta = stop - start\<close>, sample \<open>i\<close> is
  \<open>i * (delta / divisor) + start\<close> (or \<open>i / divisor * delta + start\<close> when the step rounds to
  zero), every operation rounded, and the last sample is set to \<open>stop\<close> when
  \<open>num > 1\<close>. The samples are finite for the arguments this file passes.
\<close>

definition linspace :: "real \<Rightarrow> real \<Rightarrow> int \<Rightarrow> error + real list" where
  "linspace start stop num =
     (if num < 0
      then Inl (ValueError (''Number of samples, '' @ str_int num @ '', must be non-negative.''))
      else
       (let divisor = num - 1;
            delta = rnd64 (stop - start);
            y = map real [0..<nat num]
        in if 0 < divisor
           then
            (let step = rnd64 (delta / of_int divisor);
                 y1 = (if step = 0 then map (\<lambda>i. rnd64 (rnd64 (i / of_int divisor) * delta)) y
                       else map (\<lambda>i. rnd64 (i * step)) y);
                 y2 = map (\<lambda>v. rnd64 (v + start)) y1
             in Inr (y2[nat num - 1 := stop]))
           else Inr (map (\<lambda>i. rnd64 (rnd64 (i * delta) + start)) y)))"

text \<open>
  A slice \<^verbatim>\<open>points[a:b]\<close> of an array of length \<open>n\<close>: a negative bound counts from the
  end, and both bounds are clipped to the array. \<^verbatim>\<open>points[a:b] = vals\<close> needs as many
  values as the slice has places, or one value, which is repeated; otherwise numpy raises
  \<^verbatim>\<open>ValueError\<close>. \<^verbatim>\<open>points[a:b] = c\<close> fills the slice.
\<close>

definition clip_index :: "nat \<Rightarrow> int \<Rightarrow> nat" where
  "clip_index n i = nat (if i < 0 then max 0 (int n + i) else min i (int n))"

definition slice_assign :: "real list \<Rightarrow> int \<Rightarrow> int \<Rightarrow> real list \<Rightarrow> error + real list" where
  "slice_assign points a b vals =
     (let lo = clip_index (length points) a;
          hi = max lo (clip_index (length points) b)
      in if length vals = hi - lo then Inr (take lo points @ vals @ drop hi points)
         else if length vals = 1 then Inr (take lo points @ replicate (hi - lo) (hd vals) @ drop hi points)
         else Inl (ValueError (''could not broadcast input array from shape ('' @ str_nat (length vals)
                                 @ '',) into shape ('' @ str_nat (hi - lo) @ '',)'')))"

definition slice_fill :: "real list \<Rightarrow> int \<Rightarrow> int \<Rightarrow> real \<Rightarrow> real list" where
  "slice_fill points a b c =
     (let lo = clip_index (length points) a;
          hi = max lo (clip_index (length points) b)
      in take lo points @ replicate (hi - lo) c @ drop hi points)"

text \<open>
  \<^verbatim>\<open>generate_pulse_sequence(pulse_voltage, dc_voltage, return_to_zero)\<close> with
  \<^verbatim>\<open>plot=False\<close> (plotting draws the returned array and changes nothing). The first
  division raises \<^verbatim>\<open>ZeroDivisionError\<close> when \<open>pulse_voltage\<close> is zero, and each
  \<^verbatim>\<open>int(...)\<close> raises when its float product is an infinity or NaN.
\<close>

definition generate_pulse_sequence :: "real \<Rightarrow> real \<Rightarrow> bool \<Rightarrow> error + real list" where
  "generate_pulse_sequence pulse_voltage dc_voltage return_to_zero =
     (let max_dac = (if pulse_voltage < 0 \<and> dc_voltage \<le> 0 then - (2 ^ 13 - 1) else 2 ^ 13 - 1 :: int)
      in if pulse_voltage = 0 then Inl ZeroDivisionError
         else
          (case py_int_np (fmul (fl64 (dc_voltage / pulse_voltage)) (Finite (of_int max_dac))) of
             Inl e \<Rightarrow> Inl e
           | Inr dc_dac \<Rightarrow>
              (let total_num = 20000 :: nat;
                   rise_num = 100 div 30 :: int;
                   hold_num = (500 div 3) * 100 div 84 :: int
               in case py_int_np (fmul (fl64 (of_int rise_num / pulse_voltage))
                                       (fl64 (pulse_voltage - dc_voltage))) of
                    Inl e \<Rightarrow> Inl e
                  | Inr fall_num \<Rightarrow>
                     (let points = replicate total_num (0::real);
                          pulse_rise_start = 100 :: int;
                          pulse_rise_end = pulse_rise_start + rise_num;
                          pulse_hold_start = pulse_rise_end;
                          pulse_hold_end = pulse_hold_start + hold_num;
                          pulse_fall_start = pulse_hold_end;
                          pulse_fall_end = pulse_fall_start + fall_num
                      in case linspace 0 (of_int max_dac) rise_num of
                           Inl e \<Rightarrow> Inl e
                         | Inr rise \<Rightarrow>
                            (case slice_assign points pulse_rise_start pulse_rise_end rise of
                               Inl e \<Rightarrow> Inl e
                             | Inr points1 \<Rightarrow>
                                (let points2 = slice_fill points1 pulse_hold_start pulse_hold_end
                                                 (of_int max_dac)
                                 in case linspace (of_int max_dac) (of_int dc_dac) fall_num of
                                      Inl e \<Rightarrow> Inl e
                                    | Inr fall \<Rightarrow>
                                       (case slice_assign points2 pulse_fall_start pulse_fall_end fall of
                                          Inl e \<Rightarrow> Inl e
                                        | Inr points3 \<Rightarrow>
                                           (let points4 = slice_fill points3 pulse_fall_end
                                                            (int (length points3)) (of_int dc_dac);
                                                points5 = (if return_to_zero
                                                           then points4[length points4 - 1 := 0]
                                                           else points4)
                                            in Inr points5))))))))"

text \<open>The array once the rise and the hold segment are written, for a top level \<open>m\<close>.\<close>

definition held :: "real \<Rightarrow> real list" where
  "held m = replicate 100 0 @ [0, m / 2, m] @ replicate 197 m @ replicate 19700 0"

section \<open>The companion formatter\<close>

lemma round_half_even_nearest: "\<bar>x - of_int (round_half_even x)\<bar> \<le> 1 / 2"
  unfolding round_half_even_def Let_def by (auto; linarith)

lemma round_half_even_tie: "\<bar>x - of_int (round_half_even x)\<bar> = 1 / 2 \<Longrightarrow> even (round_half_even x)"
  unfolding round_half_even_def Let_def by (auto split: if_splits; linarith)

text \<open>
  C5, counterexample. \<^verbatim>\<open>array_to_string([1.4, 2.6, -3.5])\<close> is not \<^verbatim>\<open>"1,3,-3"\<close>:
  the tie -3.5 goes to the even neighbour -4.
\<close>

theorem array_to_string_not_minus_3:
  "array_to_string [1.4, 2.6, - 3.5] \<noteq> ''1,3,-3''"
  by (simp add: array_to_string_def round_half_even_def Let_def str_int_def str_nat.simps)

text \<open>
  C5, as amended. \<^verbatim>\<open>array_to_string([1.4, 2.6, -3.5])\<close> returns \<^verbatim>\<open>"1,3,-4"\<close>; the
  result is the comma-joined list of the elements, each rounded to a nearest integer, a tie
  going to the even neighbour.
\<close>

theorem array_to_string_half_even:
  "array_to_string [1.4, 2.6, - 3.5] = ''1,3,-4'' \<and>
   array_to_string xs = join '','' (map (\<lambda>x. str_int (round_half_even x)) xs) \<and>
   (\<forall>x. \<bar>x - of_int (round_half_even x)\<bar> \<le> 1 / 2 \<and>
        (\<bar>x - of_int (round_half_even x)\<bar> = 1 / 2 \<longrightarrow> even (round_half_even x)))"
proof -
  have "array_to_string [1.4, 2.6, - 3.5] = ''1,3,-4''"
    by (simp add: array_to_string_def round_half_even_def Let_def str_int_def str_nat.simps)
  moreover have "array_to_string xs = join '','' (map (\<lambda>x. str_int (round_half_even x)) xs)"
    by (simp add: array_to_string_def)
  ultimately show ?thesis
    using round_half_even_nearest round_half_even_tie by blast
qed

theorem array_to_string_half_even_witness:
  "\<bar>- 3.5 - of_int (round_half_even (- 3.5))\<bar> = (1 / 2 :: real) \<and> even (round_half_even (- 3.5)) \<and>
   array_to_string [- 3.5] = ''-4''"
proof -
  have tie: "\<bar>- 3.5 - of_int (round_half_even (- 3.5))\<bar> = (1 / 2 :: real)"
    by (simp add: round_half_even_def Let_def)
  have "even (round_half_even (- 3.5))"
    using array_to_string_half_even [of "[]"] tie by blast
  moreover have "array_to_string [- 3.5] = ''-4''"
    using array_to_string_half_even [of "[- 3.5]"]
    by (simp add: round_half_even_def Let_def str_int_def str_nat.simps)
  ultimately show ?thesis using tie by simp
qed

section \<open>Float rounding\<close>






lemmas float_eval = fl64_def rnd64_def binade.simps pow2_def round_half_even_def Let_def

section \<open>Apply operations\<close>

lemma check_voltages_over:
  "np_gt (fl64 (\<bar>amplitude\<bar> + \<bar>offset\<bar>)) 5 \<Longrightarrow>
   check_voltages amplitude offset =
     Some (ValueError ''Amplitude + offset exceed maximal voltage of 5.0 V.'')"
  by (simp add: check_voltages_def MAX_VOLTAGE_def MAX_VOLTAGE_str_def)




text \<open>
  C2, counterexample. The amplitude 5.0 and the offset \<open>2 ^ -60\<close> have a sum above 5.0,
  but the float sum that the code compares is 5.0: \<^verbatim>\<open>apply_noise\<close> passes the check,
  returns and writes its command.
\<close>

theorem apply_noise_rounded_sum_passes:
  "\<bar>5\<bar> + \<bar>1 / 2 ^ 60\<bar> > (5::real) \<and>
   fl64 (\<bar>5\<bar> + \<bar>1 / 2 ^ 60\<bar>) = Finite 5 \<and>
   fst (apply_noise str_tenths ch_1 5 (1 / 2 ^ 60)) = Returned \<and>
   length (written (snd (apply_noise str_tenths ch_1 5 (1 / 2 ^ 60)))) = 1"
proof -
  have f: "fl64 (\<bar>5\<bar> + \<bar>1 / 2 ^ 60\<bar>) = Finite 5"
    by (simp add: float_eval)
  then have "check_voltages 5 (1 / 2 ^ 60) = None"
    by (simp add: check_voltages_def np_gt_def MAX_VOLTAGE_def)
  then show ?thesis
    using f by (simp add: apply_noise_def transport_write_def ch_1_def)
qed

text \<open>
  C2, as amended. When the float sum \<^verbatim>\<open>abs(amplitude) + abs(offset)\<close>, as the code
  computes it, is above 5.0, each of \<^verbatim>\<open>apply_noise\<close>, \<^verbatim>\<open>apply_pulse\<close>,
  \<^verbatim>\<open>apply_sin\<close>, \<^verbatim>\<open>apply_square\<close> and \<^verbatim>\<open>apply_user_waveform\<close> raises a
  \<^verbatim>\<open>ValueError\<close> whose message names the maximal voltage of 5.0 V, and the channel, with
  what its transport has received, is as it was.
\<close>

theorem apply_over_budget_raises:
  assumes "np_gt (fl64 (\<bar>amplitude\<bar> + \<bar>offset\<bar>)) 5"
  shows "apply_noise py_str ch amplitude offset =
           (Raised (ValueError ''Amplitude + offset exceed maximal voltage of 5.0 V.''), ch) \<and>
         apply_pulse py_str ch frequency amplitude offset =
           (Raised (ValueError ''Amplitude + offset exceed maximal voltage of 5.0 V.''), ch) \<and>
         apply_sin py_str ch frequency amplitude offset =
           (Raised (ValueError ''Amplitude + offset exceed maximal voltage of 5.0 V.''), ch) \<and>
         apply_square py_str ch frequency amplitude offset =
           (Raised (ValueError ''Amplitude + offset exceed maximal voltage of 5.0 V.''), ch) \<and>
         apply_user_waveform py_str ch frequency amplitude offset =
           (Raised (ValueError ''Amplitude + offset exceed maximal voltage of 5.0 V.''), ch)"
  using check_voltages_over [OF assms]
  by (simp add: apply_noise_def apply_pulse_def apply_sin_def apply_square_def
        apply_user_waveform_def)

theorem apply_over_budget_raises_witness:
  "np_gt (fl64 (\<bar>4\<bar> + \<bar>- 1.5\<bar>)) 5 \<and>
   apply_noise str_tenths ch_1 4 (- 1.5) =
     (Raised (ValueError ''Amplitude + offset exceed maximal voltage of 5.0 V.''), ch_1) \<and>
   apply_sin str_tenths ch_1 1000 4 (- 1.5) =
     (Raised (ValueError ''Amplitude + offset exceed maximal voltage of 5.0 V.''), ch_1) \<and>
   written (snd (apply_square str_tenths ch_1 1000 4 (- 1.5))) = []"
proof -
  have h: "np_gt (fl64 (\<bar>4\<bar> + \<bar>- 1.5\<bar>)) 5"
    by (simp add: float_eval np_gt_def)
  show ?thesis
    using h apply_over_budget_raises [OF h, of str_tenths ch_1 1000]
    by (simp add: ch_1_def)
qed



text \<open>
  C10. \<^verbatim>\<open>apply_dc\<close> makes no check: for every voltage, also one above 5.0 V in
  magnitude, it returns and the transport receives the one \<^verbatim>\<open>:APPL<id>:DC\<close> command.
\<close>

theorem apply_dc_unchecked:
  "apply_dc py_str ch voltage =
     (Returned, ch\<lparr>written := written ch @
        [Text ('':APPL'' @ str_nat (ch_id ch) @ '':DC DEF, DEF, '' @ py_str voltage)]\<rparr>)"
  by (simp add: apply_dc_def transport_write_def)

theorem apply_dc_unchecked_witness:
  "apply_dc str_tenths ch_1 (- 7.5) =
     (Returned, ch_1\<lparr>written := [Text '':APPL1:DC DEF, DEF, -7.5'']\<rparr>)"
  using apply_dc_unchecked [of str_tenths ch_1 "- 7.5"]
  by (simp add: ch_1_def str_tenths_def round_half_even_def Let_def str_nat.simps)

section \<open>Waveform upload\<close>




lemma preprocess_waveform_minus_2_1: "preprocess_waveform nf [- 2, 1] = Inr [- 16382, 8191]"
  by (simp add: preprocess_waveform_def data_max_def np_divide_def np_multiply_def fmul_def
        np_round_def astype_int_def MAX_DAC_VALUE_def py_int_def float_eval)

text \<open>
  C1, at the failing input. The array \<^verbatim>\<open>[-2.0, 1.0]\<close> is divided by its maximum 1.0, not
  by its peak magnitude 2.0: the encoding is \<^verbatim>\<open>[-16382, 8191]\<close>, whose first integer is
  below -8191, and the upload accepts it and sends it.
\<close>

theorem preprocess_waveform_exceeds_dac_range:
  "preprocess_waveform nf [- 2, 1] = Inr [- 16382, 8191] \<and>
   waveform_volatile_set nf ch_1 [- 2, 1] =
     (Returned, ch_1\<lparr>waveform_volatile_attr := Some [- 2, 1],
                      written := [BinaryBlock '':DATA1:DAC VOLATILE,'' [- 16382, 8191]]\<rparr>) \<and>
   - 16382 < - MAX_DAC_VALUE"
  by (simp add: waveform_volatile_set_def preprocess_waveform_minus_2_1 write_binary_values_def
        ch_1_def str_nat.simps MAX_DAC_VALUE_def)




section \<open>Settings\<close>

lemma control_set_eq:
  "control_set sc (lo, hi) v t =
     (if lo \<le> v \<and> v \<le> hi then (Returned, t @ [Text (sc v)]) else (Raised (RangeError v (lo, hi)), t))"
  by (simp add: control_set_def strict_range_def transport_write_def)




lemma trigger_not_burst: "trigger_count_set_command k v \<noteq> burst_state_set_command n s"
  by (simp add: trigger_count_set_command_def burst_state_set_command_def)

text \<open>
  C9. Setting \<^verbatim>\<open>trigger_count\<close> issues the trigger-count write itself and nothing else:
  a value that the range validator accepts (\<open>[1, 2147483647]\<close>) issues exactly one
  command, the \<^verbatim>\<open>:TRIG<id>:COUN\<close> write, and a value that it rejects never reaches the
  transport. No command that is newly written is a burst-state command, also for a value
  above 1: the burst state setting is left as it was.
\<close>

theorem trigger_count_single_write:
  "trigger_count_set ch v =
     (if 1 \<le> v \<and> v \<le> 2147483647
      then (Returned, ch\<lparr>written := written ch @
              [Text ('':TRIG'' @ str_nat (ch_id ch) @ '':COUN '' @ str_int (py_int v))]\<rparr>)
      else (Raised (RangeError v (1, 2147483647)), ch)) \<and>
   (\<forall>m \<in> set (drop (length (written ch)) (written (snd (trigger_count_set ch v)))).
      \<forall>n s. m \<noteq> Text (burst_state_set_command n s))"
  using trigger_not_burst
  by (auto simp add: trigger_count_set_def TRIGGER_COUNT_def control_set_eq trigger_count_set_command_def)

theorem trigger_count_single_write_witness:
  "trigger_count_set ch_1 5 = (Returned, ch_1\<lparr>written := [Text '':TRIG1:COUN 5'']\<rparr>) \<and>
   drop (length (written ch_1)) (written (snd (trigger_count_set ch_1 5))) = [Text '':TRIG1:COUN 5''] \<and>
   '':TRIG1:COUN 5'' \<noteq> burst_state_set_command 1 ''1''"
proof -
  have a: "trigger_count_set ch_1 5 = (Returned, ch_1\<lparr>written := [Text '':TRIG1:COUN 5'']\<rparr>)"
    using trigger_count_single_write [of ch_1 5]
    by (simp add: ch_1_def str_int_def py_int_def str_nat.simps)
  then have b: "drop (length (written ch_1)) (written (snd (trigger_count_set ch_1 5)))
                  = [Text '':TRIG1:COUN 5'']"
    by (simp add: ch_1_def)
  have "\<forall>m \<in> set (drop (length (written ch_1)) (written (snd (trigger_count_set ch_1 5)))).
          \<forall>n s. m \<noteq> Text (burst_state_set_command n s)"
    using trigger_count_single_write [of ch_1 5] by (rule conjunct2)
  then have "\<forall>n s. '':TRIG1:COUN 5'' \<noteq> burst_state_set_command n s"
    unfolding b by simp
  then have "'':TRIG1:COUN 5'' \<noteq> burst_state_set_command 1 ''1''"
    by blast
  with a b show ?thesis by blast
qed

section \<open>Pulse sequence\<close>

lemma linspace_neg: "n < 0 \<Longrightarrow> \<exists>msg. linspace a b n = Inl (ValueError msg)"
  by (simp add: linspace_def)

lemma linspace_length: "0 \<le> n \<Longrightarrow> \<exists>vs. linspace a b n = Inr vs \<and> length vs = nat n"
  by (simp add: linspace_def Let_def)

lemma linspace_returned: "linspace a b n = Inr vs \<Longrightarrow> 0 \<le> n \<and> length vs = nat n"
  by (auto simp add: linspace_def Let_def split: if_splits)

lemma clip_index_le: "clip_index n i \<le> n"
  by (auto simp add: clip_index_def max_def min_def)

lemma slice_assign_length: "slice_assign p a b vals = Inr q \<Longrightarrow> length q = length p"
proof -
  assume r: "slice_assign p a b vals = Inr q"
  have "clip_index (length p) a \<le> length p" "clip_index (length p) b \<le> length p"
    by (rule clip_index_le)+
  then show ?thesis
    using r by (auto simp add: slice_assign_def Let_def max_def split: if_splits)
qed

lemma slice_assign_exact:
  "0 \<le> a \<Longrightarrow> a \<le> b \<Longrightarrow> b \<le> int (length p) \<Longrightarrow> length vals = nat (b - a) \<Longrightarrow>
   slice_assign p a b vals = Inr (take (nat a) p @ vals @ drop (nat b) p)"
  by (auto simp add: slice_assign_def clip_index_def Let_def max_def min_def nat_diff_distrib)

lemma slice_fill_length: "length (slice_fill p a b c) = length p"
proof -
  have "clip_index (length p) a \<le> length p" "clip_index (length p) b \<le> length p"
    by (rule clip_index_le)+
  then show ?thesis
    by (simp add: slice_fill_def Let_def max_def)
qed

lemma slice_fill_tail:
  "0 \<le> a \<Longrightarrow> nat a \<le> i \<Longrightarrow> i < length p \<Longrightarrow> slice_fill p a (int (length p)) c ! i = c"
  by (auto simp add: slice_fill_def clip_index_def Let_def max_def min_def nth_append)

lemma linspace_rise_up: "linspace 0 8191 3 = Inr [0, 8191 / 2, 8191]"
  by (simp add: linspace_def upt_rec numeral_3_eq_3 rnd64_def binade.simps pow2_def
        round_half_even_def Let_def)

lemma linspace_rise_down: "linspace 0 (- 8191) 3 = Inr [0, - 8191 / 2, - 8191]"
  by (simp add: linspace_def upt_rec numeral_3_eq_3 rnd64_def binade.simps pow2_def
        round_half_even_def Let_def)

lemma linspace_rise:
  assumes "m = 8191 \<or> m = - 8191"
  shows "linspace 0 m 3 = Inr (0 # m / 2 # [m])"
  using assms
proof
  assume "m = 8191"
  then show ?thesis using linspace_rise_up by simp
next
  assume "m = - 8191"
  then show ?thesis using linspace_rise_down by simp
qed

lemma rise_assigned:
  "slice_assign (replicate 20000 0) 100 103 (0 # m / 2 # [m]) =
     Inr (replicate 100 0 @ 0 # m / 2 # m # replicate 19897 0)"
  by (simp add: slice_assign_def clip_index_def Let_def)

lemma hold_filled:
  "slice_fill (replicate 100 0 @ 0 # m / 2 # m # replicate 19897 0) 103 300 m = held m"
  by (simp add: slice_fill_def clip_index_def Let_def held_def)

lemma length_held: "length (held m) = 20000"
  by (simp add: held_def)

lemma generate_pulse_sequence_unfold:
  assumes "pv \<noteq> 0" and "m = (if pv < 0 \<and> dv \<le> 0 then - 8191 else 8191)"
  shows "generate_pulse_sequence pv dv rtz =
    (case py_int_np (fmul (fl64 (dv / pv)) (Finite (of_int m))) of
       Inl e \<Rightarrow> Inl e
     | Inr d \<Rightarrow>
        (case py_int_np (fmul (fl64 (3 / pv)) (fl64 (pv - dv))) of
           Inl e \<Rightarrow> Inl e
         | Inr f \<Rightarrow>
            (case linspace (of_int m) (of_int d) f of
               Inl e \<Rightarrow> Inl e
             | Inr fall \<Rightarrow>
                (case slice_assign (held (of_int m)) 300 (300 + f) fall of
                   Inl e \<Rightarrow> Inl e
                 | Inr points3 \<Rightarrow>
                    Inr (if rtz
                         then (slice_fill points3 (300 + f) (int (length points3)) (of_int d))
                                [length points3 - 1 := 0]
                         else slice_fill points3 (300 + f) (int (length points3)) (of_int d))))))"
proof -
  have m: "real_of_int m = 8191 \<or> real_of_int m = - 8191"
    using assms(2) by simp
  have rise: "linspace 0 (of_int m) 3 = Inr (0 # of_int m / 2 # [of_int m])"
    by (rule linspace_rise [OF m])
  have a: "(100::int) + 100 div 30 = 103" "(103::int) + 500 div 3 * 100 div 84 = 300"
    "(100::int) div 30 = 3"
    by simp_all
  have mm: "(if pv < 0 \<and> dv \<le> 0 then - (2 ^ 13 - 1) else 2 ^ 13 - 1) = m"
    using assms(2) by simp
  show ?thesis
    unfolding generate_pulse_sequence_def Let_def a mm
    using assms(1)
    by (simp add: rise rise_assigned hold_filled slice_fill_length
          split del: if_split cong: sum.case_cong if_cong)
qed

lemma generate_pulse_sequence_returned:
  assumes "pv \<noteq> 0" and "generate_pulse_sequence pv dv rtz = Inr pts"
    and "m = (if pv < 0 \<and> dv \<le> 0 then - 8191 else 8191)"
  shows "\<exists>d f. py_int_np (fmul (fl64 (dv / pv)) (Finite (of_int m))) = Inr d \<and>
               py_int_np (fmul (fl64 (3 / pv)) (fl64 (pv - dv))) = Inr f \<and>
               0 \<le> f \<and> length pts = 20000 \<and>
               (\<forall>i. nat (300 + f) \<le> i \<and> i < 20000 \<and> (rtz \<longrightarrow> i \<noteq> 19999)
                    \<longrightarrow> pts ! i = of_int d)"
proof -
  note u = generate_pulse_sequence_unfold [OF assms(1,3), of rtz]
  from assms(2) obtain d f fall points3
    where d: "py_int_np (fmul (fl64 (dv / pv)) (Finite (of_int m))) = Inr d"
      and f: "py_int_np (fmul (fl64 (3 / pv)) (fl64 (pv - dv))) = Inr f"
      and fall: "linspace (of_int m) (of_int d) f = Inr fall"
      and p3: "slice_assign (held (of_int m)) 300 (300 + f) fall = Inr points3"
      and pts0: "pts = (if rtz then (slice_fill points3 (300 + f) (int (length points3)) (of_int d))
                                  [length points3 - 1 := 0]
                        else slice_fill points3 (300 + f) (int (length points3)) (of_int d))"
    by (auto simp add: u split: sum.splits if_splits)
  define points4 where "points4 = slice_fill points3 (300 + f) (int (length points3)) (of_int d)"
  have pts: "pts = (if rtz then points4[length points3 - 1 := 0] else points4)"
    using pts0 by (simp add: points4_def)
  have f0: "0 \<le> f"
    using linspace_returned [OF fall] by simp
  have len3: "length points3 = 20000"
    using slice_assign_length [OF p3] by (simp add: length_held)
  have len4: "length points4 = 20000"
    by (simp add: points4_def slice_fill_length len3)
  have tail: "points4 ! i = of_int d" if "nat (300 + f) \<le> i" "i < 20000" for i
    unfolding points4_def
    using slice_fill_tail [of "300 + f" i points3 "of_int d"] that f0 len3 by simp
  have len: "length pts = 20000"
    using len4 by (simp add: pts)
  have "pts ! i = of_int d" if "nat (300 + f) \<le> i" "i < 20000" "rtz \<longrightarrow> i \<noteq> 19999" for i
    using tail [OF that(1,2)] that(3) len3 by (simp add: pts)
  with d f f0 len show ?thesis by blast
qed

lemma generate_pulse_sequence_5_2_updated: "generate_pulse_sequence 5 2 True =
  Inr ((replicate 100 0 @ [0, 8191 / 2, 8191] @ replicate 197 8191 @ [8191] @ replicate 19699 3276)[19999 := 0])"
  apply (subst generate_pulse_sequence_unfold [where m = 8191])
    apply simp
   apply simp
  apply (simp add: py_int_np_def fmul_def py_int_def fl64_def rnd64_def binade.simps pow2_def
           round_half_even_def Let_def)
  apply (simp add: linspace_def rnd64_def binade.simps pow2_def round_half_even_def Let_def
           held_def slice_assign_def slice_fill_def clip_index_def)
  done

lemma generate_pulse_sequence_2_1: "generate_pulse_sequence 2 1 False =
  Inr (replicate 100 0 @ [0, 8191 / 2, 8191] @ replicate 197 8191 @ [8191] @ replicate 19699 4095)"
  apply (subst generate_pulse_sequence_unfold [where m = 8191])
    apply simp
   apply simp
  apply (simp add: py_int_np_def fmul_def py_int_def fl64_def rnd64_def binade.simps pow2_def
           round_half_even_def Let_def)
  apply (simp add: linspace_def rnd64_def binade.simps pow2_def round_half_even_def Let_def
           held_def slice_assign_def slice_fill_def clip_index_def)
  done

lemma replicate_update_last: "(replicate (Suc n) x)[n := y] = replicate n x @ [y]"
  by (induction n) auto

lemma generate_pulse_sequence_5_2: "generate_pulse_sequence 5 2 True =
  Inr (replicate 100 0 @ [0, 8191 / 2, 8191] @ replicate 197 8191 @ [8191] @ replicate 19698 3276 @ [0])"
proof -
  have "(replicate 19699 (3276::real))[19698 := 0] = replicate 19698 3276 @ [0]"
    using replicate_update_last [of 19698 "3276::real" 0] by simp
  then show ?thesis
    unfolding generate_pulse_sequence_5_2_updated by (simp add: list_update_append)
qed

text \<open>
  The function returns whenever both \<^verbatim>\<open>int(...)\<close> succeed and the fall segment fits
  between index 300 and the end of the array.
\<close>

lemma generate_pulse_sequence_returns:
  assumes "pv \<noteq> 0"
    and "py_int_np (fmul (fl64 (dv / pv)) (Finite (of_int (if pv < 0 \<and> dv \<le> 0 then - 8191 else 8191)))) = Inr d"
    and "py_int_np (fmul (fl64 (3 / pv)) (fl64 (pv - dv))) = Inr f"
    and "0 \<le> f" "f \<le> 19700"
  shows "\<exists>pts. generate_pulse_sequence pv dv rtz = Inr pts"
proof -
  define m :: int where "m = (if pv < 0 \<and> dv \<le> 0 then - 8191 else 8191)"
  obtain fall where fall: "linspace (of_int m) (of_int d) f = Inr fall" "length fall = nat f"
    using linspace_length [OF assms(4)] by blast
  have "slice_assign (held (of_int m)) 300 (300 + f) fall =
          Inr (take 300 (held (of_int m)) @ fall @ drop (nat (300 + f)) (held (of_int m)))"
    using slice_assign_exact [of 300 "300 + f" "held (of_int m)" fall] assms(4,5) fall
    by (simp add: length_held)
  then show ?thesis
    using assms(2,3) fall
    by (simp add: generate_pulse_sequence_unfold [OF assms(1) m_def] m_def [symmetric])
qed

text \<open>
  The rounding of the float operations decides the length of the fall segment: for
  \<^verbatim>\<open>pulse_voltage = 147\<close>, \<^verbatim>\<open>dc_voltage = 196\<close> the float product is just above -1 and
  the length is 0, and for 47 and 0 it is just below 3 and the length is 2.
\<close>

lemma fall_num_147_196: "py_int_np (fmul (fl64 (3 / 147)) (fl64 (147 - 196))) = Inr 0"
  by (simp add: py_int_np_def fmul_def py_int_def fl64_def rnd64_def binade.simps pow2_def
        round_half_even_def Let_def)

lemma fall_num_47_0: "py_int_np (fmul (fl64 (3 / 47)) (fl64 (47 - 0))) = Inr 2"
  by (simp add: py_int_np_def fmul_def py_int_def fl64_def rnd64_def binade.simps pow2_def
        round_half_even_def Let_def)

text \<open>
  C7, counterexample. With \<^verbatim>\<open>pulse_voltage = 2\<close> and \<^verbatim>\<open>dc_voltage = 1\<close> the float
  product \<^verbatim>\<open>dc_voltage / pulse_voltage * max_dac\<close> is 4095.5; the tail of the output
  holds 4095, its truncation, while 4095.5 rounded to the nearest integer is 4096.
\<close>

theorem tail_level_is_not_rounded:
  "generate_pulse_sequence 2 1 False =
     Inr (replicate 100 0 @ [0, 8191 / 2, 8191] @ replicate 197 8191 @ [8191] @ replicate 19699 4095) \<and>
   (replicate 100 0 @ [0, 8191 / 2, 8191] @ replicate 197 8191 @ [8191] @ replicate 19699 (4095::real))
     ! 19999 = 4095 \<and>
   fmul (fl64 (1 / 2)) (Finite 8191) = Finite (8191 / 2) \<and>
   round_half_even (8191 / 2) = 4096"
  by (simp add: generate_pulse_sequence_2_1 nth_append fmul_def fl64_def rnd64_def binade.simps
        pow2_def round_half_even_def Let_def)

text \<open>
  C7, as amended. For every \<open>pulse_voltage \<noteq> 0\<close> for which an output is returned, the dc
  level written into the tail of the output is
  \<^verbatim>\<open>int(dc_voltage / pulse_voltage * max_dac)\<close>: the float product truncated toward
  zero, not rounded to the nearest integer. The tail is every sample from index
  \<open>300 + fall_num\<close> on, the last sample apart when \<open>return_to_zero\<close> is set; the output
  has 20000 samples.
\<close>

theorem generate_pulse_sequence_tail_truncated:
  assumes "pulse_voltage \<noteq> 0"
    and "generate_pulse_sequence pulse_voltage dc_voltage return_to_zero = Inr pts"
  shows "\<exists>dc_dac fall_num.
           py_int_np (fmul (fl64 (dc_voltage / pulse_voltage))
                        (Finite (of_int (if pulse_voltage < 0 \<and> dc_voltage \<le> 0 then - 8191 else 8191))))
             = Inr dc_dac \<and>
           py_int_np (fmul (fl64 (3 / pulse_voltage)) (fl64 (pulse_voltage - dc_voltage)))
             = Inr fall_num \<and>
           0 \<le> fall_num \<and> length pts = 20000 \<and>
           (\<forall>i. nat (300 + fall_num) \<le> i \<and> i < 20000 \<and> (return_to_zero \<longrightarrow> i \<noteq> 19999)
                \<longrightarrow> pts ! i = of_int dc_dac)"
  by (rule generate_pulse_sequence_returned [OF assms refl])

theorem generate_pulse_sequence_tail_truncated_witness:
  "(2::real) \<noteq> 0 \<and>
   generate_pulse_sequence 2 1 False =
     Inr (replicate 100 0 @ [0, 8191 / 2, 8191] @ replicate 197 8191 @ [8191] @ replicate 19699 4095) \<and>
   py_int_np (fmul (fl64 (1 / 2)) (Finite 8191)) = Inr 4095 \<and>
   (replicate 100 0 @ [0, 8191 / 2, 8191] @ replicate 197 8191 @ [8191] @ replicate 19699 (4095::real))
     ! 301 = 4095 \<and>
   (replicate 100 0 @ [0, 8191 / 2, 8191] @ replicate 197 8191 @ [8191] @ replicate 19699 (4095::real))
     ! 19999 = 4095"
proof -
  let ?P = "replicate 100 0 @ [0, 8191 / 2, 8191] @ replicate 197 8191 @ [8191]
              @ replicate 19699 (4095::real)"
  have h: "(2::real) \<noteq> 0" by simp
  have g: "generate_pulse_sequence 2 1 False = Inr ?P"
    by (rule generate_pulse_sequence_2_1)
  obtain d f
    where d: "py_int_np (fmul (fl64 (1 / 2))
                (Finite (of_int (if (2::real) < 0 \<and> (1::real) \<le> 0 then - 8191 else 8191)))) = Inr d"
      and f: "py_int_np (fmul (fl64 (3 / 2)) (fl64 (2 - 1))) = Inr f"
      and tail: "\<forall>i. nat (300 + f) \<le> i \<and> i < 20000 \<and> (False \<longrightarrow> i \<noteq> 19999)
                     \<longrightarrow> ?P ! i = of_int d"
    using generate_pulse_sequence_tail_truncated [OF h g] by blast
  have e: "py_int_np (fmul (fl64 (1 / 2)) (Finite 8191)) = Inr 4095"
    by (simp add: py_int_np_def fmul_def py_int_def fl64_def rnd64_def binade.simps pow2_def
          round_half_even_def Let_def)
  have d': "d = 4095"
    using d e by simp
  have f': "f = 1"
    using f
    by (simp add: py_int_np_def fmul_def py_int_def fl64_def rnd64_def binade.simps pow2_def
          round_half_even_def Let_def)
  have "?P ! 301 = 4095" "?P ! 19999 = 4095"
    using tail [rule_format, of 301] tail [rule_format, of 19999] d' f' by simp_all
  with h g e show ?thesis by blast
qed

text \<open>
  C8. \<^verbatim>\<open>generate_pulse_sequence(pulse_voltage=5, dc_voltage=2, return_to_zero=True)\<close>
  returns 20000 samples; the samples at indices 0 to 99 are 0, the sample at index 100 is
  0, the rise segment (indices 100 to 102) is 0, 4095.5, 8191 and so non-decreasing, and
  the last sample is 0.
\<close>

theorem generate_pulse_sequence_5_2_shape:
  "\<exists>pts. generate_pulse_sequence 5 2 True = Inr pts \<and> length pts = 20000 \<and>
     take 100 pts = replicate 100 0 \<and> pts ! 100 = 0 \<and>
     take 3 (drop 100 pts) = [0, 8191 / 2, 8191] \<and> sorted (take 3 (drop 100 pts)) \<and>
     pts ! 19999 = 0 \<and> last pts = 0"
  unfolding generate_pulse_sequence_5_2
  by (simp add: nth_append)

end
